theory Spec2Isabelle
  imports Main "HOL-Library.Sublist"
begin

section \<open>Datawrapper chart auto-updater: \<open>UpdateStateHouseBattleMap.py\<close>\<close>

text \<open>
  The script reads three environment variables, downloads a Google Sheet as CSV, uploads
  the CSV to a Datawrapper chart, patches the chart's notes with a timestamp and publishes
  the chart. Everything it does beyond computing strings is an effect: four HTTP calls, one
  reading of the clock and a number of \<open>print\<close>s. The embedding makes these explicit:
  \<^item> every function takes the run's state and returns it updated, with its result;
  \<^item> an exception is a value \<open>Inl e\<close> of the result, and the state returned with it is
    the state at the moment of the raise;
  \<^item> the outside world (the remote servers, the clock) is a parameter: an abstract world
    \<open>'w\<close> and the operations on it that the \<open>requests\<close> and \<open>datetime\<close> libraries
    stand for;
  \<^item> the state keeps a log of every HTTP exchange and of every printed line, so that
    "no network call is made" is a statement about the log.
\<close>

subsection \<open>Exceptions\<close>

datatype error =
    ValueError string
  | IndexError
  | AttributeError
  | JSONDecodeError
  | RequestException string
  | HTTPError nat

text \<open>Sequencing of computations that may raise: the first exception is the result.\<close>

definition and_then :: "error + 'a \<Rightarrow> ('a \<Rightarrow> error + 'b) \<Rightarrow> error + 'b" where
  "and_then r f = (case r of Inl e \<Rightarrow> Inl e | Inr x \<Rightarrow> f x)"

subsection \<open>Python strings and lists\<close>

text \<open>
  A Python \<open>str\<close> is modelled by \<open>string\<close>; the script never looks inside a character,
  so the difference between code points and bytes plays no role.

  \<open>sub in s\<close>: \<open>sub\<close> occurs in \<open>s\<close> as a contiguous substring.
\<close>

fun str_contains :: "string \<Rightarrow> string \<Rightarrow> bool" where
  "str_contains sub [] = (sub = [])"
| "str_contains sub (c # cs) = (prefix sub (c # cs) \<or> str_contains sub cs)"

text \<open>
  \<open>s.split(sep)\<close>: the pieces of \<open>s\<close> between the occurrences of \<open>sep\<close>, found from
  the left and not overlapping. Python raises \<open>ValueError\<close> on an empty separator.
\<close>

fun split_nonempty :: "string \<Rightarrow> string \<Rightarrow> string list" where
  "split_nonempty sep [] = [[]]"
| "split_nonempty sep (c # cs) =
     (if prefix sep (c # cs) then [] # split_nonempty sep (drop (length sep - 1) cs)
      else (case split_nonempty sep cs of
              [] \<Rightarrow> [[c]]
            | p # ps \<Rightarrow> (c # p) # ps))"

definition str_split :: "string \<Rightarrow> string \<Rightarrow> error + string list" where
  "str_split s sep =
     (if sep = [] then Inl (ValueError ''empty separator'') else Inr (split_nonempty sep s))"

text \<open>\<open>xs[i]\<close> for an index \<open>i \<ge> 0\<close>: \<open>IndexError\<close> when out of range.\<close>

definition getitem :: "'a list \<Rightarrow> nat \<Rightarrow> error + 'a" where
  "getitem xs i = (if i < length xs then Inr (xs ! i) else Inl IndexError)"

text \<open>\<open>str(n)\<close> for a non-negative integer: its decimal digits.\<close>

definition digit_char :: "nat \<Rightarrow> char" where
  "digit_char d = ''0123456789'' ! d"

fun str_nat :: "nat \<Rightarrow> string" where
  "str_nat n =
     (if n < 10 then [digit_char n] else str_nat (n div 10) @ [digit_char (n mod 10)])"

declare str_nat.simps [simp del]

subsection \<open>JSON values and dictionaries\<close>

text \<open>
  A decoded JSON document. An object is the list of the items of the decoded \<open>dict\<close>
  (\<open>map_of\<close> looks a key up). Numbers are carried along and never inspected.
\<close>

datatype json =
    JNull
  | JBool bool
  | JNumber int
  | JString string
  | JArray "json list"
  | JObject "(string \<times> json) list"

text \<open>
  \<open>d.get(key, default)\<close>. Only a \<open>dict\<close> has the method: on any other decoded value
  (\<open>None\<close>, a list, a string, a number) the attribute lookup raises \<open>AttributeError\<close>.
\<close>

fun dict_get :: "json \<Rightarrow> string \<Rightarrow> json \<Rightarrow> error + json" where
  "dict_get (JObject items) key dflt =
     Inr (case map_of items key of None \<Rightarrow> dflt | Some v \<Rightarrow> v)"
| "dict_get _ key dflt = Inl AttributeError"

subsection \<open>HTTP through the \<open>requests\<close> library\<close>

datatype http_verb = GET | PUT | PATCH | POST

datatype payload = NoBody | Data string | Json json

record request =
  rq_verb :: http_verb
  rq_url :: string
  rq_headers :: "(string \<times> string) list"
  rq_body :: payload

text \<open>
  A response as the script reads it: \<open>status_code\<close>, \<open>.text\<close> and \<open>.json()\<close>, the
  last being \<open>None\<close> when the body is not a JSON document (\<open>.json()\<close> raises then).
\<close>

record response =
  status_code :: nat
  resp_text :: string
  resp_json :: "json option"

text \<open>A call either yields a response or raises (no connection, timeout, ...).\<close>

datatype outcome = Failed string | Responded response

text \<open>
  \<open>Response.raise_for_status()\<close> of the library raises \<open>HTTPError\<close> exactly for the
  client and server error codes, \<open>400 \<le> status_code < 600\<close>.
\<close>

definition error_status :: "response \<Rightarrow> bool" where
  "error_status r = (400 \<le> status_code r \<and> status_code r < 600)"

definition raise_for_status :: "response \<Rightarrow> error + unit" where
  "raise_for_status r = (if error_status r then Inl (HTTPError (status_code r)) else Inr ())"

definition response_json :: "response \<Rightarrow> error + json" where
  "response_json r = (case resp_json r of None \<Rightarrow> Inl JSONDecodeError | Some j \<Rightarrow> Inr j)"

subsection \<open>The clock and \<open>strftime\<close>\<close>

record datetime =
  year :: nat
  month :: nat
  day :: nat
  hour :: nat
  minute :: nat

text \<open>
  What the system clock shows at one moment: the wall-clock time of the process's
  timezone and the time in UTC. \<open>datetime.now()\<close> without argument returns the first.
\<close>

record clock_reading =
  local_time :: datetime
  utc_time :: datetime

definition month_names :: "string list" where
  "month_names = [''January'', ''February'', ''March'', ''April'', ''May'', ''June'',
     ''July'', ''August'', ''September'', ''October'', ''November'', ''December'']"

definition month_name :: "nat \<Rightarrow> string" where
  "month_name m = (if 1 \<le> m \<and> m \<le> 12 then month_names ! (m - 1) else ''?'')"

definition pad2 :: "nat \<Rightarrow> string" where
  "pad2 n = (if n < 10 then CHR ''0'' # str_nat n else str_nat n)"

definition hour12 :: "nat \<Rightarrow> nat" where
  "hour12 h = (if h mod 12 = 0 then 12 else h mod 12)"

definition am_pm :: "nat \<Rightarrow> string" where
  "am_pm h = (if h < 12 then ''AM'' else ''PM'')"

text \<open>
  The conversions of \<open>strftime\<close> that the script uses, in the default (C) locale:
  \<open>%B\<close> month name, \<open>%d\<close> day, \<open>%Y\<close> year, \<open>%I\<close> hour on the 12-hour clock,
  \<open>%M\<close> minute, \<open>%p\<close> AM or PM. Any other conversion is copied unchanged.
\<close>

definition conversion :: "datetime \<Rightarrow> char \<Rightarrow> string" where
  "conversion t c =
     (if c = CHR ''B'' then month_name (month t)
      else if c = CHR ''d'' then pad2 (day t)
      else if c = CHR ''Y'' then str_nat (year t)
      else if c = CHR ''I'' then pad2 (hour12 (hour t))
      else if c = CHR ''M'' then pad2 (minute t)
      else if c = CHR ''p'' then am_pm (hour t)
      else [CHR ''%'', c])"

fun strftime :: "datetime \<Rightarrow> string \<Rightarrow> string" where
  "strftime t [] = []"
| "strftime t [c] = [c]"
| "strftime t (c # c' # cs) =
     (if c = CHR ''%'' then conversion t c' @ strftime t cs
      else c # strftime t (c' # cs))"

subsection \<open>The outside world and the state of a run\<close>

text \<open>
  The system the script runs on, over an abstract world \<open>'w\<close>:
  \<^item> \<open>http\<close>: what a request does to the world and what comes back;
  \<^item> \<open>clock\<close>: the reading of the system clock;
  \<^item> \<open>repr_value\<close>: the text Python's \<open>str()\<close> gives for a decoded JSON value that is
    not a string (used only when printing).
\<close>

record 'w system =
  http :: "'w \<Rightarrow> request \<Rightarrow> outcome \<times> 'w"
  clock :: "'w \<Rightarrow> clock_reading"
  repr_value :: "json \<Rightarrow> string"

record 'w runtime =
  world :: 'w
  exchanges :: "(request \<times> outcome) list"
  stdout :: "string list"

definition initial :: "'w \<Rightarrow> 'w runtime" where
  "initial w = \<lparr>world = w, exchanges = [], stdout = []\<rparr>"

definition print :: "string \<Rightarrow> 'w runtime \<Rightarrow> 'w runtime" where
  "print line s = s\<lparr>stdout := stdout s @ [line]\<rparr>"

definition datetime_now :: "'w system \<Rightarrow> 'w runtime \<Rightarrow> datetime" where
  "datetime_now sys s = local_time (clock sys (world s))"

fun str_value :: "'w system \<Rightarrow> json \<Rightarrow> string" where
  "str_value sys (JString v) = v"
| "str_value sys v = repr_value sys v"

text \<open>
  One call of the library: the request goes out, the exchange is logged, and the outcome
  is a response or the exception of a failed transport.
\<close>

definition send :: "'w system \<Rightarrow> request \<Rightarrow> 'w runtime \<Rightarrow> (error + response) \<times> 'w runtime" where
  "send sys rq s =
     (case http sys (world s) rq of
        (out, w') \<Rightarrow>
          ((case out of Failed msg \<Rightarrow> Inl (RequestException msg) | Responded r \<Rightarrow> Inr r),
           s\<lparr>world := w', exchanges := exchanges s @ [(rq, out)]\<rparr>))"

definition requests_get ::
  "'w system \<Rightarrow> string \<Rightarrow> 'w runtime \<Rightarrow> (error + response) \<times> 'w runtime" where
  "requests_get sys u =
     send sys \<lparr>rq_verb = GET, rq_url = u, rq_headers = [], rq_body = NoBody\<rparr>"

definition requests_put ::
  "'w system \<Rightarrow> string \<Rightarrow> (string \<times> string) list \<Rightarrow> string \<Rightarrow> 'w runtime
     \<Rightarrow> (error + response) \<times> 'w runtime" where
  "requests_put sys u hs d =
     send sys \<lparr>rq_verb = PUT, rq_url = u, rq_headers = hs, rq_body = Data d\<rparr>"

definition requests_patch ::
  "'w system \<Rightarrow> string \<Rightarrow> (string \<times> string) list \<Rightarrow> json \<Rightarrow> 'w runtime
     \<Rightarrow> (error + response) \<times> 'w runtime" where
  "requests_patch sys u hs j =
     send sys \<lparr>rq_verb = PATCH, rq_url = u, rq_headers = hs, rq_body = Json j\<rparr>"

definition requests_post ::
  "'w system \<Rightarrow> string \<Rightarrow> (string \<times> string) list \<Rightarrow> 'w runtime
     \<Rightarrow> (error + response) \<times> 'w runtime" where
  "requests_post sys u hs =
     send sys \<lparr>rq_verb = POST, rq_url = u, rq_headers = hs, rq_body = NoBody\<rparr>"

subsection \<open>Configuration from the environment (lines 12 to 14)\<close>

definition DATAWRAPPER_API_KEY :: "(string \<rightharpoonup> string) \<Rightarrow> string option" where
  "DATAWRAPPER_API_KEY environ = environ ''DATAWRAPPER_API_KEY''"

definition CHART_ID :: "(string \<rightharpoonup> string) \<Rightarrow> string" where
  "CHART_ID environ =
     (case environ ''DATAWRAPPER_CHART_ID'' of None \<Rightarrow> ''kg7Xj'' | Some v \<Rightarrow> v)"

definition GOOGLE_SHEET_URL :: "(string \<rightharpoonup> string) \<Rightarrow> string option" where
  "GOOGLE_SHEET_URL environ = environ ''GOOGLE_SHEET_URL''"

subsection \<open>The four steps\<close>

definition check_mark :: string where
  "check_mark = [CHR 0xE2, CHR 0x9C, CHR 0x93]"

definition csv_export_url :: "string \<Rightarrow> string" where
  "csv_export_url sheet_id =
     ''https://docs.google.com/spreadsheets/d/'' @ sheet_id @ ''/export?format=csv''"

definition get_google_sheet_csv ::
  "'w system \<Rightarrow> string \<Rightarrow> 'w runtime \<Rightarrow> (error + string) \<times> 'w runtime" where
  "get_google_sheet_csv sys sheet_url s =
     (if str_contains ''/d/'' sheet_url then
        (case and_then (and_then (and_then (str_split sheet_url ''/d/'') (\<lambda>parts. getitem parts 1))
                (\<lambda>rest. str_split rest ''/'')) (\<lambda>parts. getitem parts 0) of
           Inl e \<Rightarrow> (Inl e, s)
         | Inr sheet_id \<Rightarrow>
             (case requests_get sys (csv_export_url sheet_id) s of
                (Inl e, s') \<Rightarrow> (Inl e, s')
              | (Inr response, s') \<Rightarrow>
                  (case raise_for_status response of
                     Inl e \<Rightarrow> (Inl e, s')
                   | Inr _ \<Rightarrow> (Inr (resp_text response), s'))))
      else (Inl (ValueError ''Invalid Google Sheets URL format''), s))"

definition update_chart_data ::
  "'w system \<Rightarrow> string \<Rightarrow> string \<Rightarrow> string \<Rightarrow> 'w runtime \<Rightarrow> (error + unit) \<times> 'w runtime" where
  "update_chart_data sys api_key chart_id csv_data s =
     (let url = ''https://api.datawrapper.de/v3/charts/'' @ chart_id @ ''/data'';
          headers = [(''Authorization'', ''Bearer '' @ api_key),
                     (''Content-Type'', ''text/csv'')]
      in case requests_put sys url headers csv_data s of
           (Inl e, s') \<Rightarrow> (Inl e, s')
         | (Inr response, s') \<Rightarrow>
             (case raise_for_status response of
                Inl e \<Rightarrow> (Inl e, s')
              | Inr _ \<Rightarrow>
                  (Inr (),
                   print (check_mark @ '' Chart data updated successfully (Status: ''
                            @ str_nat (status_code response) @ '')'') s')))"

definition update_chart_metadata ::
  "'w system \<Rightarrow> string \<Rightarrow> string \<Rightarrow> 'w runtime \<Rightarrow> (error + unit) \<times> 'w runtime" where
  "update_chart_metadata sys api_key chart_id s =
     (let url = ''https://api.datawrapper.de/v3/charts/'' @ chart_id;
          headers = [(''Authorization'', ''Bearer '' @ api_key),
                     (''Content-Type'', ''application/json'')];
          timestamp = strftime (datetime_now sys s) ''%B %d, %Y at %I:%M %p UTC'';
          payload = JObject [(''metadata'',
                      JObject [(''annotate'',
                        JObject [(''notes'', JString (''Last updated: '' @ timestamp))])])]
      in case requests_patch sys url headers payload s of
           (Inl e, s') \<Rightarrow> (Inl e, s')
         | (Inr response, s') \<Rightarrow>
             (case raise_for_status response of
                Inl e \<Rightarrow> (Inl e, s')
              | Inr _ \<Rightarrow>
                  (Inr (),
                   print (check_mark @ '' Chart metadata updated with timestamp: ''
                            @ timestamp) s')))"

definition publish_chart ::
  "'w system \<Rightarrow> string \<Rightarrow> string \<Rightarrow> 'w runtime \<Rightarrow> (error + json) \<times> 'w runtime" where
  "publish_chart sys api_key chart_id s =
     (let url = ''https://api.datawrapper.de/v3/charts/'' @ chart_id @ ''/publish'';
          headers = [(''Authorization'', ''Bearer '' @ api_key),
                     (''Content-Type'', ''application/json'')]
      in case requests_post sys url headers s of
           (Inl e, s') \<Rightarrow> (Inl e, s')
         | (Inr response, s') \<Rightarrow>
             (case raise_for_status response of
                Inl e \<Rightarrow> (Inl e, s')
              | Inr _ \<Rightarrow>
                  (case and_then (and_then (response_json response)
                            (\<lambda>result. dict_get result ''data'' (JObject [])))
                          (\<lambda>data. dict_get data ''publicUrl'' (JString ''URL not available'')) of
                     Inl e \<Rightarrow> (Inl e, s')
                   | Inr public_url \<Rightarrow>
                       (Inr public_url,
                        print (''  Public URL: '' @ str_value sys public_url)
                          (print (check_mark @ '' Chart published successfully!'') s')))))"

subsection \<open>The orchestrator\<close>

definition banner :: string where
  "banner = replicate 50 CHR ''=''"

definition main ::
  "'w system \<Rightarrow> (string \<rightharpoonup> string) \<Rightarrow> 'w runtime \<Rightarrow> (error + unit) \<times> 'w runtime" where
  "main sys environ s0 =
     (let s1 = print banner (print ''Datawrapper Chart Auto-Update'' (print banner s0)) in
      (case DATAWRAPPER_API_KEY environ of
         None \<Rightarrow> (Inl (ValueError ''DATAWRAPPER_API_KEY environment variable is required''), s1)
       | Some api_key \<Rightarrow>
      (if api_key = [] then
         (Inl (ValueError ''DATAWRAPPER_API_KEY environment variable is required''), s1)
       else
      (case GOOGLE_SHEET_URL environ of
         None \<Rightarrow> (Inl (ValueError ''GOOGLE_SHEET_URL environment variable is required''), s1)
       | Some sheet_url \<Rightarrow>
      (if sheet_url = [] then
         (Inl (ValueError ''GOOGLE_SHEET_URL environment variable is required''), s1)
       else
      (let s2 = print ''Step 1: Fetching data from Google Sheets...''
                  (print []
                    (print (''Google Sheet: '' @ take 50 sheet_url @ ''...'')
                      (print (CHR 0x0A # ''Chart ID: '' @ CHART_ID environ) s1)))
       in
      (case get_google_sheet_csv sys sheet_url s2 of
         (Inl e, s3) \<Rightarrow> (Inl e, s3)
       | (Inr csv_data, s3) \<Rightarrow>
      (let s4 = print (CHR 0x0A # ''Step 2: Uploading data to Datawrapper...'')
                  (print (check_mark @ '' Retrieved '' @ str_nat (length csv_data)
                            @ '' bytes of data'') s3)
       in
      (case update_chart_data sys api_key (CHART_ID environ) csv_data s4 of
         (Inl e, s5) \<Rightarrow> (Inl e, s5)
       | (Inr _, s5) \<Rightarrow>
      (let s6 = print (CHR 0x0A # ''Step 3: Updating chart metadata...'') s5 in
      (case update_chart_metadata sys api_key (CHART_ID environ) s6 of
         (Inl e, s7) \<Rightarrow> (Inl e, s7)
       | (Inr _, s7) \<Rightarrow>
      (let s8 = print (CHR 0x0A # ''Step 4: Publishing chart...'') s7 in
      (case publish_chart sys api_key (CHART_ID environ) s8 of
         (Inl e, s9) \<Rightarrow> (Inl e, s9)
       | (Inr public_url, s9) \<Rightarrow>
           (Inr (),
            print banner (print ''Update complete!''
              (print (CHR 0x0A # banner) s9))))))))))))))))"

subsection \<open>Vocabulary of the statements\<close>

text \<open>
  The requests a run has sent, in order, and the exchanges it has added to a log; whether
  a call failed (no response, or a response that \<open>raise_for_status\<close> rejects).
\<close>

definition requests_sent :: "'w runtime \<Rightarrow> request list" where
  "requests_sent s = map fst (exchanges s)"

definition new_exchanges :: "'w runtime \<Rightarrow> 'w runtime \<Rightarrow> (request \<times> outcome) list" where
  "new_exchanges s0 s = drop (length (exchanges s0)) (exchanges s)"

definition call_failed :: "outcome \<Rightarrow> bool" where
  "call_failed out = (case out of Failed msg \<Rightarrow> True | Responded r \<Rightarrow> error_status r)"

definition orderly :: "(request \<times> outcome) list \<Rightarrow> bool \<Rightarrow> bool" where
  "orderly log failed =
     (prefix (map (rq_verb \<circ> fst) log) [GET, PUT, PATCH, POST]
      \<and> (\<forall>x \<in> set (butlast log). \<not> call_failed (snd x))
      \<and> (log \<noteq> [] \<and> call_failed (snd (last log)) \<longrightarrow> failed))"

text \<open>
  The state a call leaves behind, and the request of each step: \<open>requests.get(u)\<close> of
  line 30, the \<open>put\<close> of lines 40 to 46, the \<open>patch\<close> of lines 56 to 72 with the notes
  as a parameter, the \<open>post\<close> of lines 82 to 88.
\<close>

definition after_call :: "'w system \<Rightarrow> request \<Rightarrow> 'w runtime \<Rightarrow> 'w runtime" where
  "after_call sys rq s =
     s\<lparr>world := snd (http sys (world s) rq),
       exchanges := exchanges s @ [(rq, fst (http sys (world s) rq))]\<rparr>"

definition get_request :: "string \<Rightarrow> request" where
  "get_request u = \<lparr>rq_verb = GET, rq_url = u, rq_headers = [], rq_body = NoBody\<rparr>"

definition put_request :: "string \<Rightarrow> string \<Rightarrow> string \<Rightarrow> request" where
  "put_request api_key chart_id csv_data =
     \<lparr>rq_verb = PUT,
      rq_url = ''https://api.datawrapper.de/v3/charts/'' @ chart_id @ ''/data'',
      rq_headers = [(''Authorization'', ''Bearer '' @ api_key), (''Content-Type'', ''text/csv'')],
      rq_body = Data csv_data\<rparr>"

definition patch_request :: "string \<Rightarrow> string \<Rightarrow> string \<Rightarrow> request" where
  "patch_request api_key chart_id notes =
     \<lparr>rq_verb = PATCH,
      rq_url = ''https://api.datawrapper.de/v3/charts/'' @ chart_id,
      rq_headers = [(''Authorization'', ''Bearer '' @ api_key),
                    (''Content-Type'', ''application/json'')],
      rq_body = Json (JObject [(''metadata'',
                  JObject [(''annotate'', JObject [(''notes'', JString notes)])])])\<rparr>"

definition post_request :: "string \<Rightarrow> string \<Rightarrow> request" where
  "post_request api_key chart_id =
     \<lparr>rq_verb = POST,
      rq_url = ''https://api.datawrapper.de/v3/charts/'' @ chart_id @ ''/publish'',
      rq_headers = [(''Authorization'', ''Bearer '' @ api_key),
                    (''Content-Type'', ''application/json'')],
      rq_body = NoBody\<rparr>"

definition timestamp_now :: "'w system \<Rightarrow> 'w runtime \<Rightarrow> string" where
  "timestamp_now sys s =
     strftime (local_time (clock sys (world s))) ''%B %d, %Y at %I:%M %p UTC''"

text \<open>
  The identifier that line 23 takes out of a URL: of the pieces around \<open>/d/\<close> the second,
  and of that the part before the first \<open>/\<close>.
\<close>

definition sheet_id_of :: "string \<Rightarrow> string" where
  "sheet_id_of u = hd (split_nonempty ''/'' (split_nonempty ''/d/'' u ! 1))"

text \<open>
  The nested field \<open>data.publicUrl\<close> of a decoded document, in the spec's words: the
  member \<open>publicUrl\<close> of the object that is the member \<open>data\<close> of the document.
\<close>

fun public_url_field :: "json \<Rightarrow> json option" where
  "public_url_field (JObject items) =
     (case map_of items ''data'' of
        Some (JObject members) \<Rightarrow> map_of members ''publicUrl''
      | _ \<Rightarrow> None)"
| "public_url_field _ = None"

text \<open>
  The states in which \<open>main\<close> calls the four steps: the state so far, with the progress
  lines of lines 104 to 119, 121 to 124, 128 and 132 printed.
\<close>

definition at_fetch :: "(string \<rightharpoonup> string) \<Rightarrow> string \<Rightarrow> 'w runtime \<Rightarrow> 'w runtime" where
  "at_fetch environ sheet_url s0 =
     print ''Step 1: Fetching data from Google Sheets...''
       (print []
         (print (''Google Sheet: '' @ take 50 sheet_url @ ''...'')
           (print (CHR 0x0A # ''Chart ID: '' @ CHART_ID environ)
             (print banner (print ''Datawrapper Chart Auto-Update'' (print banner s0))))))"

definition at_upload :: "string \<Rightarrow> 'w runtime \<Rightarrow> 'w runtime" where
  "at_upload csv_data s =
     print (CHR 0x0A # ''Step 2: Uploading data to Datawrapper...'')
       (print (check_mark @ '' Retrieved '' @ str_nat (length csv_data) @ '' bytes of data'') s)"

definition at_metadata :: "'w runtime \<Rightarrow> 'w runtime" where
  "at_metadata s = print (CHR 0x0A # ''Step 3: Updating chart metadata...'') s"

definition at_publish :: "'w runtime \<Rightarrow> 'w runtime" where
  "at_publish s = print (CHR 0x0A # ''Step 4: Publishing chart...'') s"

subsection \<open>A concrete system\<close>

text \<open>
  For running the model: the world is the list of the outcomes that the next calls will
  have, and the clock shows seven past three in the afternoon, local time, five hours
  behind UTC.
\<close>

definition sample_clock :: clock_reading where
  "sample_clock =
     \<lparr>local_time = \<lparr>year = 2026, month = 11, day = 4, hour = 15, minute = 7\<rparr>,
      utc_time = \<lparr>year = 2026, month = 11, day = 4, hour = 20, minute = 7\<rparr>\<rparr>"

definition scripted :: "outcome list system" where
  "scripted =
     \<lparr>http = (\<lambda>w rq. case w of [] \<Rightarrow> (Failed ''connection refused'', [])
                              | out # rest \<Rightarrow> (out, rest)),
      clock = (\<lambda>w. sample_clock),
      repr_value = (\<lambda>v. ''?'')\<rparr>"

definition sample_environ :: "string \<rightharpoonup> string" where
  "sample_environ =
     [''DATAWRAPPER_API_KEY'' \<mapsto> ''key'',
      ''GOOGLE_SHEET_URL'' \<mapsto> ''https://docs.google.com/spreadsheets/d/ABC123/edit'']"

definition key_only_environ :: "string \<rightharpoonup> string" where
  "key_only_environ = [''DATAWRAPPER_API_KEY'' \<mapsto> ''key'']"

definition fetched :: "string \<Rightarrow> response" where
  "fetched csv = \<lparr>status_code = 200, resp_text = csv, resp_json = None\<rparr>"

definition server_error :: response where
  "server_error = \<lparr>status_code = 500, resp_text = [], resp_json = None\<rparr>"

definition published :: "json \<Rightarrow> response" where
  "published j = \<lparr>status_code = 200, resp_text = [], resp_json = Some j\<rparr>"

definition forbidden_with_url :: response where
  "forbidden_with_url =
     \<lparr>status_code = 403, resp_text = [],
      resp_json = Some (JObject [(''data'',
        JObject [(''publicUrl'', JString ''https://example.com/chart1'')])])\<rparr>"

section \<open>Properties\<close>

subsection \<open>Substring test and \<open>split\<close>\<close>

lemma str_contains_iff: "str_contains sub s \<longleftrightarrow> (\<exists>p r. s = p @ sub @ r)"
proof (induction s)
  case Nil
  then show ?case by auto
next
  case (Cons c cs)
  show ?case
  proof
    assume "str_contains sub (c # cs)"
    then consider "prefix sub (c # cs)" | "str_contains sub cs" by auto
    then show "\<exists>p r. c # cs = p @ sub @ r"
    proof cases
      case 1
      then obtain r where "c # cs = sub @ r" by (auto simp: prefix_def)
      then have "c # cs = [] @ sub @ r" by simp
      then show ?thesis by blast
    next
      case 2
      with Cons obtain p r where "cs = p @ sub @ r" by blast
      then have "c # cs = (c # p) @ sub @ r" by simp
      then show ?thesis by blast
    qed
  next
    assume "\<exists>p r. c # cs = p @ sub @ r"
    then obtain p r where eq: "c # cs = p @ sub @ r" by blast
    show "str_contains sub (c # cs)"
    proof (cases p)
      case Nil
      with eq have "prefix sub (c # cs)" by (simp add: prefix_def)
      then show ?thesis by simp
    next
      case (Cons a p')
      with eq have "cs = p' @ sub @ r" by simp
      with Cons.IH have "str_contains sub cs" by blast
      then show ?thesis by simp
    qed
  qed
qed

lemma split_nonempty_not_Nil: "split_nonempty sep s \<noteq> []"
  by (induction s) (auto split: list.splits)

lemma hd_split_nonempty_Cons:
  "hd (split_nonempty sep (c # cs)) =
     (if prefix sep (c # cs) then [] else c # hd (split_nonempty sep cs))"
  using split_nonempty_not_Nil [of sep cs] by (cases "split_nonempty sep cs") auto

lemma length_split_nonempty_skip:
  "\<not> prefix sep (c # cs) \<Longrightarrow>
     length (split_nonempty sep (c # cs)) = length (split_nonempty sep cs)"
  using split_nonempty_not_Nil [of sep cs] by (cases "split_nonempty sep cs") auto

text \<open>Where the separator occurs, \<open>split\<close> gives at least two pieces: index 1 exists.\<close>

lemma split_nonempty_two_pieces:
  "sep \<noteq> [] \<Longrightarrow> str_contains sep s \<Longrightarrow> 2 \<le> length (split_nonempty sep s)"
proof (induction s)
  case Nil
  then show ?case by simp
next
  case (Cons c cs)
  show ?case
  proof (cases "prefix sep (c # cs)")
    case True
    then show ?thesis
      using split_nonempty_not_Nil [of sep "drop (length sep - 1) cs"]
      by (cases "split_nonempty sep (drop (length sep - 1) cs)") auto
  next
    case False
    with Cons.prems have "str_contains sep cs" by simp
    with Cons have "2 \<le> length (split_nonempty sep cs)" by blast
    with length_split_nonempty_skip [OF False] show ?thesis by simp
  qed
qed

lemma hd_split_single:
  "hd (split_nonempty [x] s) = takeWhile (\<lambda>c. c \<noteq> x) s"
proof (induction s)
  case Nil
  then show ?case by simp
next
  case (Cons c cs)
  then show ?case by (simp only: hd_split_nonempty_Cons) auto
qed

lemma hd_split_before_first_char:
  "x \<notin> set a \<Longrightarrow>
     hd (split_nonempty (x # t) (a @ r)) = a @ hd (split_nonempty (x # t) r)"
proof (induction a)
  case Nil
  then show ?case by simp
next
  case (Cons c a)
  then have "\<not> prefix (x # t) (c # a @ r)" by auto
  with Cons show ?case by (simp add: hd_split_nonempty_Cons del: split_nonempty.simps)
qed

lemma prefix_append_short:
  "prefix xs (ys @ zs) \<Longrightarrow> length xs \<le> length ys \<Longrightarrow> prefix xs ys"
  by (auto simp: prefix_append)

lemma around_last:
  "sep \<noteq> [] \<Longrightarrow> x @ sep @ r = (x @ butlast sep) @ last sep # r"
  by (metis append.assoc append_Cons append_Nil append_butlast_last_id)

text \<open>
  The first piece is what stands before the first occurrence of the separator. That no
  occurrence starts inside \<open>p\<close> is the same as: none lies in \<open>p\<close> followed by the
  separator without its last character.
\<close>

lemma split_nonempty_first_occurrence:
  assumes "sep \<noteq> []" and "\<not> str_contains sep (p @ butlast sep)"
  shows "split_nonempty sep (p @ sep @ r) = p # split_nonempty sep r"
  using assms(2)
proof (induction p)
  case Nil
  from assms(1) obtain c t where sep: "sep = c # t" by (cases sep) auto
  then show ?case by simp
next
  case (Cons c p)
  from Cons.prems have np: "\<not> prefix sep (c # p @ butlast sep)"
    and nc: "\<not> str_contains sep (p @ butlast sep)" by auto
  have "\<not> prefix sep (c # p @ sep @ r)"
  proof
    assume "prefix sep (c # p @ sep @ r)"
    moreover have "c # p @ sep @ r = (c # p @ butlast sep) @ (last sep # r)"
      using around_last [OF assms(1), of "c # p" r] by simp
    ultimately have "prefix sep ((c # p @ butlast sep) @ (last sep # r))"
      by (simp only:)
    moreover have "length sep \<le> length (c # p @ butlast sep)" by simp
    ultimately have "prefix sep (c # p @ butlast sep)" by (rule prefix_append_short)
    with np show False ..
  qed
  with Cons.IH [OF nc] show ?case by simp
qed

lemma first_occurrence_exists:
  assumes "sep \<noteq> []" and "str_contains sep s"
  shows "\<exists>p r. s = p @ sep @ r \<and> \<not> str_contains sep (p @ butlast sep)"
  using assms(2)
proof (induction s)
  case Nil
  with assms(1) show ?case by simp
next
  case (Cons c cs)
  show ?case
  proof (cases "prefix sep (c # cs)")
    case True
    then obtain r where "c # cs = [] @ sep @ r" by (auto simp: prefix_def)
    moreover have "\<not> str_contains sep ([] @ butlast sep)"
    proof
      assume "str_contains sep ([] @ butlast sep)"
      then obtain p' r' where "butlast sep = p' @ sep @ r'"
        by (auto simp: str_contains_iff)
      then have "length (butlast sep) = length p' + length sep + length r'"
        by (metis length_append add.assoc)
      moreover have "length (butlast sep) < length sep"
        using assms(1) by (cases sep) simp_all
      ultimately show False by linarith
    qed
    ultimately show ?thesis by blast
  next
    case False
    with Cons.prems have "str_contains sep cs" by simp
    with Cons.IH obtain p r where cs: "cs = p @ sep @ r"
      and nc: "\<not> str_contains sep (p @ butlast sep)" by blast
    have "\<not> prefix sep (c # p @ butlast sep)"
    proof
      assume "prefix sep (c # p @ butlast sep)"
      then have "prefix sep ((c # p @ butlast sep) @ (last sep # r))"
        using prefix_prefix by blast
      moreover have "c # cs = (c # p @ butlast sep) @ (last sep # r)"
        unfolding cs using around_last [OF assms(1), of "c # p" r] by simp
      ultimately have "prefix sep (c # cs)" by (simp only:)
      with False show False ..
    qed
    with nc have "\<not> str_contains sep ((c # p) @ butlast sep)" by simp
    moreover have "c # cs = (c # p) @ sep @ r" by (simp add: cs)
    ultimately show ?thesis by blast
  qed
qed

lemma takeWhile_until:
  "x \<notin> set a \<Longrightarrow> takeWhile (\<lambda>c. c \<noteq> x) (a @ x # t) = a"
  by (induction a) auto

lemma takeWhile_absent:
  "x \<notin> set a \<Longrightarrow> takeWhile (\<lambda>c. c \<noteq> x) a = a"
  by (induction a) auto

subsection \<open>The identifier taken from the URL\<close>

text \<open>With \<open>/d/\<close> in the URL neither index of line 23 is out of range.\<close>

lemma extract_sheet_id:
  assumes "str_contains ''/d/'' u"
  shows "and_then (and_then (and_then (str_split u ''/d/'') (\<lambda>parts. getitem parts 1))
           (\<lambda>rest. str_split rest ''/'')) (\<lambda>parts. getitem parts 0) = Inr (sheet_id_of u)"
proof -
  have "2 \<le> length (split_nonempty ''/d/'' u)"
    using assms by (intro split_nonempty_two_pieces) simp_all
  moreover have "0 < length (split_nonempty ''/'' (split_nonempty ''/d/'' u ! 1))"
    using split_nonempty_not_Nil by blast
  ultimately show ?thesis
    by (simp add: and_then_def str_split_def getitem_def sheet_id_of_def hd_conv_nth
        del: split_nonempty.simps)
qed

text \<open>The identifier is the text between the first \<open>/d/\<close> and the next \<open>/\<close>.\<close>

lemma sheet_id_of_first_marker:
  assumes "\<not> str_contains ''/d/'' (p @ ''/d'')"
  shows "sheet_id_of (p @ ''/d/'' @ rest) = takeWhile (\<lambda>c. c \<noteq> CHR ''/'') rest"
proof -
  define a where "a = takeWhile (\<lambda>c. c \<noteq> CHR ''/'') rest"
  define b where "b = dropWhile (\<lambda>c. c \<noteq> CHR ''/'') rest"
  have rest: "rest = a @ b" by (simp add: a_def b_def)
  have a: "CHR ''/'' \<notin> set a" by (auto simp: a_def dest: set_takeWhileD)
  have b: "b = [] \<or> hd b = CHR ''/''"
    unfolding b_def using hd_dropWhile [of "\<lambda>c. c \<noteq> CHR ''/''" rest] by auto
  have "\<not> str_contains ''/d/'' (p @ butlast ''/d/'')" using assms by simp
  then have "split_nonempty ''/d/'' (p @ ''/d/'' @ rest) = p # split_nonempty ''/d/'' rest"
    by (intro split_nonempty_first_occurrence) simp_all
  then have "sheet_id_of (p @ ''/d/'' @ rest)
      = takeWhile (\<lambda>c. c \<noteq> CHR ''/'') (hd (split_nonempty ''/d/'' rest))"
    using split_nonempty_not_Nil [of "''/d/''" rest]
    by (simp add: sheet_id_of_def hd_split_single hd_conv_nth del: split_nonempty.simps)
  also have "hd (split_nonempty ''/d/'' rest) = a @ hd (split_nonempty ''/d/'' b)"
    unfolding rest using a by (rule hd_split_before_first_char)
  also have "takeWhile (\<lambda>c. c \<noteq> CHR ''/'') (a @ hd (split_nonempty ''/d/'' b)) = a"
  proof (cases b)
    case Nil
    with a show ?thesis by (simp add: takeWhile_absent)
  next
    case (Cons c b')
    with b have "c = CHR ''/''" by simp
    with Cons have "hd (split_nonempty ''/d/'' b) = [] \<or>
        hd (hd (split_nonempty ''/d/'' b)) = CHR ''/'' \<and> hd (split_nonempty ''/d/'' b) \<noteq> []"
      by (simp add: hd_split_nonempty_Cons del: split_nonempty.simps)
    then show ?thesis
    proof
      assume "hd (split_nonempty ''/d/'' b) = []"
      with a show ?thesis by (simp add: takeWhile_absent)
    next
      assume "hd (hd (split_nonempty ''/d/'' b)) = CHR ''/'' \<and> hd (split_nonempty ''/d/'' b) \<noteq> []"
      then obtain t where "hd (split_nonempty ''/d/'' b) = CHR ''/'' # t"
        by (cases "hd (split_nonempty ''/d/'' b)") auto
      with a show ?thesis by (simp add: takeWhile_until)
    qed
  qed
  finally show ?thesis by (simp add: a_def)
qed

subsection \<open>What each call does\<close>

lemma send_eq:
  "send sys rq s =
     ((case fst (http sys (world s) rq) of
         Failed msg \<Rightarrow> Inl (RequestException msg) | Responded r \<Rightarrow> Inr r),
      s\<lparr>world := snd (http sys (world s) rq),
        exchanges := exchanges s @ [(rq, fst (http sys (world s) rq))]\<rparr>)"
  by (simp add: send_def split: prod.splits)

lemma get_google_sheet_csv_marker:
  assumes "str_contains ''/d/'' u"
  shows "get_google_sheet_csv sys u s =
     ((case fst (http sys (world s) (get_request (csv_export_url (sheet_id_of u)))) of
         Failed msg \<Rightarrow> Inl (RequestException msg)
       | Responded r \<Rightarrow>
           if error_status r then Inl (HTTPError (status_code r)) else Inr (resp_text r)),
      s\<lparr>world := snd (http sys (world s) (get_request (csv_export_url (sheet_id_of u)))),
        exchanges := exchanges s @
          [(get_request (csv_export_url (sheet_id_of u)),
            fst (http sys (world s) (get_request (csv_export_url (sheet_id_of u)))))]\<rparr>)"
  unfolding get_google_sheet_csv_def extract_sheet_id [OF assms]
  using assms
  by (simp add: requests_get_def send_eq raise_for_status_def get_request_def
      split: outcome.splits)

lemma get_google_sheet_csv_no_marker:
  "\<not> str_contains ''/d/'' u \<Longrightarrow>
     get_google_sheet_csv sys u s = (Inl (ValueError ''Invalid Google Sheets URL format''), s)"
  by (simp add: get_google_sheet_csv_def)

lemma requests_sent_fetch:
  "str_contains ''/d/'' u \<Longrightarrow>
     requests_sent (snd (get_google_sheet_csv sys u s))
       = requests_sent s @ [get_request (csv_export_url (sheet_id_of u))]"
  by (simp add: get_google_sheet_csv_marker requests_sent_def)

subsection \<open>Printing and calling change what they should\<close>

lemma exchanges_print [simp]: "exchanges (print line s) = exchanges s"
  by (simp add: print_def)

lemma world_print [simp]: "world (print line s) = world s"
  by (simp add: print_def)

lemma exchanges_after_call [simp]:
  "exchanges (after_call sys rq s) = exchanges s @ [(rq, fst (http sys (world s) rq))]"
  by (simp add: after_call_def)

lemma world_after_call [simp]:
  "world (after_call sys rq s) = snd (http sys (world s) rq)"
  by (simp add: after_call_def)

lemma stdout_after_call [simp]: "stdout (after_call sys rq s) = stdout s"
  by (simp add: after_call_def)

lemma exchanges_at [simp]:
  "exchanges (at_fetch environ u s) = exchanges s"
  "exchanges (at_upload d s) = exchanges s"
  "exchanges (at_metadata s) = exchanges s"
  "exchanges (at_publish s) = exchanges s"
  by (simp_all add: at_fetch_def at_upload_def at_metadata_def at_publish_def)

lemma world_at [simp]:
  "world (at_fetch environ u s) = world s"
  "world (at_upload d s) = world s"
  "world (at_metadata s) = world s"
  "world (at_publish s) = world s"
  by (simp_all add: at_fetch_def at_upload_def at_metadata_def at_publish_def)

lemma requests_sent_after_call [simp]:
  "requests_sent (after_call sys rq s) = requests_sent s @ [rq]"
  by (simp add: requests_sent_def)

lemma requests_sent_print [simp]: "requests_sent (print line s) = requests_sent s"
  by (simp add: requests_sent_def)

lemma requests_sent_at [simp]:
  "requests_sent (at_fetch environ u s) = requests_sent s"
  "requests_sent (at_upload d s) = requests_sent s"
  "requests_sent (at_metadata s) = requests_sent s"
  "requests_sent (at_publish s) = requests_sent s"
  by (simp_all add: requests_sent_def)

lemma world_initial [simp]: "world (initial w) = w"
  by (simp add: initial_def)

lemma exchanges_initial [simp]: "exchanges (initial w) = []"
  by (simp add: initial_def)

lemma stdout_initial [simp]: "stdout (initial w) = []"
  by (simp add: initial_def)

lemma requests_sent_initial [simp]: "requests_sent (initial w) = []"
  by (simp add: requests_sent_def)

subsection \<open>Each step as one call and what follows from its outcome\<close>

lemma send_after_call:
  "send sys rq s =
     ((case fst (http sys (world s) rq) of
         Failed msg \<Rightarrow> Inl (RequestException msg) | Responded r \<Rightarrow> Inr r),
      after_call sys rq s)"
  by (simp add: send_eq after_call_def)

lemma get_google_sheet_csv_eq:
  assumes "str_contains ''/d/'' u"
  shows "get_google_sheet_csv sys u s =
     (case fst (http sys (world s) (get_request (csv_export_url (sheet_id_of u)))) of
        Failed msg \<Rightarrow>
          (Inl (RequestException msg),
           after_call sys (get_request (csv_export_url (sheet_id_of u))) s)
      | Responded r \<Rightarrow>
          if error_status r then
            (Inl (HTTPError (status_code r)),
             after_call sys (get_request (csv_export_url (sheet_id_of u))) s)
          else
            (Inr (resp_text r),
             after_call sys (get_request (csv_export_url (sheet_id_of u))) s))"
  by (simp add: get_google_sheet_csv_marker [OF assms] after_call_def split: outcome.splits)

lemma update_chart_data_eq:
  "update_chart_data sys api_key chart_id csv_data s =
     (case fst (http sys (world s) (put_request api_key chart_id csv_data)) of
        Failed msg \<Rightarrow>
          (Inl (RequestException msg), after_call sys (put_request api_key chart_id csv_data) s)
      | Responded r \<Rightarrow>
          if error_status r then
            (Inl (HTTPError (status_code r)),
             after_call sys (put_request api_key chart_id csv_data) s)
          else
            (Inr (),
             print (check_mark @ '' Chart data updated successfully (Status: ''
                      @ str_nat (status_code r) @ '')'')
               (after_call sys (put_request api_key chart_id csv_data) s)))"
  by (simp add: update_chart_data_def requests_put_def send_after_call raise_for_status_def
      put_request_def split: outcome.splits)

lemma update_chart_metadata_eq:
  "update_chart_metadata sys api_key chart_id s =
     (case fst (http sys (world s)
                 (patch_request api_key chart_id (''Last updated: '' @ timestamp_now sys s))) of
        Failed msg \<Rightarrow>
          (Inl (RequestException msg),
           after_call sys
             (patch_request api_key chart_id (''Last updated: '' @ timestamp_now sys s)) s)
      | Responded r \<Rightarrow>
          if error_status r then
            (Inl (HTTPError (status_code r)),
             after_call sys
               (patch_request api_key chart_id (''Last updated: '' @ timestamp_now sys s)) s)
          else
            (Inr (),
             print (check_mark @ '' Chart metadata updated with timestamp: ''
                      @ timestamp_now sys s)
               (after_call sys
                  (patch_request api_key chart_id (''Last updated: '' @ timestamp_now sys s)) s)))"
  by (simp add: update_chart_metadata_def requests_patch_def send_after_call
      raise_for_status_def patch_request_def timestamp_now_def datetime_now_def Let_def
      split: outcome.splits del: strftime.simps)

lemma publish_chart_eq:
  "publish_chart sys api_key chart_id s =
     (case fst (http sys (world s) (post_request api_key chart_id)) of
        Failed msg \<Rightarrow>
          (Inl (RequestException msg), after_call sys (post_request api_key chart_id) s)
      | Responded r \<Rightarrow>
          if error_status r then
            (Inl (HTTPError (status_code r)), after_call sys (post_request api_key chart_id) s)
          else
            (case and_then (and_then (response_json r)
                      (\<lambda>result. dict_get result ''data'' (JObject [])))
                    (\<lambda>data. dict_get data ''publicUrl'' (JString ''URL not available'')) of
               Inl e \<Rightarrow> (Inl e, after_call sys (post_request api_key chart_id) s)
             | Inr public_url \<Rightarrow>
                 (Inr public_url,
                  print (''  Public URL: '' @ str_value sys public_url)
                    (print (check_mark @ '' Chart published successfully!'')
                       (after_call sys (post_request api_key chart_id) s)))))"
  by (simp add: publish_chart_def requests_post_def send_after_call raise_for_status_def
      post_request_def split: outcome.splits sum.splits)

lemma publish_chart_result:
  assumes "fst (http sys (world s) (post_request api_key chart_id)) = Responded r"
    and "\<not> error_status r"
  shows "fst (publish_chart sys api_key chart_id s)
     = and_then (and_then (response_json r)
          (\<lambda>result. dict_get result ''data'' (JObject [])))
          (\<lambda>data. dict_get data ''publicUrl'' (JString ''URL not available''))"
  using assms by (simp add: publish_chart_eq split: sum.splits)

lemma requests_sent_upload:
  "requests_sent (snd (update_chart_data sys api_key chart_id csv_data s))
     = requests_sent s @ [put_request api_key chart_id csv_data]"
  by (simp add: update_chart_data_eq split: outcome.splits)

lemma requests_sent_metadata:
  "requests_sent (snd (update_chart_metadata sys api_key chart_id s))
     = requests_sent s
       @ [patch_request api_key chart_id (''Last updated: '' @ timestamp_now sys s)]"
  by (simp add: update_chart_metadata_eq split: outcome.splits)

lemma requests_sent_publish:
  "requests_sent (snd (publish_chart sys api_key chart_id s))
     = requests_sent s @ [post_request api_key chart_id]"
  by (simp add: publish_chart_eq split: outcome.splits sum.splits)

text \<open>Each step adds one exchange to the log, and a failed call makes the step raise.\<close>

lemma fetch_step:
  assumes "str_contains ''/d/'' u"
  shows "\<exists>rq out. rq_verb rq = GET
           \<and> exchanges (snd (get_google_sheet_csv sys u s)) = exchanges s @ [(rq, out)]
           \<and> (call_failed out \<longrightarrow> isl (fst (get_google_sheet_csv sys u s)))"
  by (intro exI [of _ "get_request (csv_export_url (sheet_id_of u))"]
        exI [of _ "fst (http sys (world s) (get_request (csv_export_url (sheet_id_of u))))"])
     (simp add: get_google_sheet_csv_eq [OF assms] call_failed_def get_request_def
        split: outcome.splits)

lemma upload_step:
  "\<exists>rq out. rq_verb rq = PUT
     \<and> exchanges (snd (update_chart_data sys k c d s)) = exchanges s @ [(rq, out)]
     \<and> (call_failed out \<longrightarrow> isl (fst (update_chart_data sys k c d s)))"
  by (intro exI [of _ "put_request k c d"]
        exI [of _ "fst (http sys (world s) (put_request k c d))"])
     (simp add: update_chart_data_eq call_failed_def put_request_def split: outcome.splits)

lemma metadata_step:
  "\<exists>rq out. rq_verb rq = PATCH
     \<and> exchanges (snd (update_chart_metadata sys k c s)) = exchanges s @ [(rq, out)]
     \<and> (call_failed out \<longrightarrow> isl (fst (update_chart_metadata sys k c s)))"
  by (intro exI [of _ "patch_request k c (''Last updated: '' @ timestamp_now sys s)"]
        exI [of _ "fst (http sys (world s)
                    (patch_request k c (''Last updated: '' @ timestamp_now sys s)))"])
     (simp add: update_chart_metadata_eq call_failed_def patch_request_def
        split: outcome.splits)

lemma publish_step:
  "\<exists>rq out. rq_verb rq = POST
     \<and> exchanges (snd (publish_chart sys k c s)) = exchanges s @ [(rq, out)]
     \<and> (call_failed out \<longrightarrow> isl (fst (publish_chart sys k c s)))"
  by (intro exI [of _ "post_request k c"]
        exI [of _ "fst (http sys (world s) (post_request k c))"])
     (simp add: publish_chart_eq call_failed_def post_request_def
        split: outcome.splits sum.splits)

subsection \<open>The format of the timestamp\<close>

lemma strftime_format:
  "strftime t ''%B %d, %Y at %I:%M %p UTC'' =
     month_name (month t) @ '' '' @ pad2 (day t) @ '', '' @ str_nat (year t) @ '' at ''
       @ pad2 (hour12 (hour t)) @ '':'' @ pad2 (minute t) @ '' '' @ am_pm (hour t) @ '' UTC''"
  by (simp add: conversion_def)

lemma sample_timestamp:
  "strftime (local_time sample_clock) ''%B %d, %Y at %I:%M %p UTC''
     = ''November 04, 2026 at 03:07 PM UTC''"
  by (simp add: strftime_format sample_clock_def month_name_def month_names_def pad2_def
      hour12_def am_pm_def str_nat.simps digit_char_def del: strftime.simps)

subsection \<open>The orchestrator, unfolded\<close>

lemma main_valid:
  assumes "DATAWRAPPER_API_KEY environ = Some api_key" and "api_key \<noteq> []"
    and "GOOGLE_SHEET_URL environ = Some sheet_url" and "sheet_url \<noteq> []"
  shows "main sys environ s0 =
     (case get_google_sheet_csv sys sheet_url (at_fetch environ sheet_url s0) of
        (Inl e, sf) \<Rightarrow> (Inl e, sf)
      | (Inr csv_data, sf) \<Rightarrow>
     (case update_chart_data sys api_key (CHART_ID environ) csv_data (at_upload csv_data sf) of
        (Inl e, su) \<Rightarrow> (Inl e, su)
      | (Inr _, su) \<Rightarrow>
     (case update_chart_metadata sys api_key (CHART_ID environ) (at_metadata su) of
        (Inl e, sm) \<Rightarrow> (Inl e, sm)
      | (Inr _, sm) \<Rightarrow>
     (case publish_chart sys api_key (CHART_ID environ) (at_publish sm) of
        (Inl e, sp) \<Rightarrow> (Inl e, sp)
      | (Inr public_url, sp) \<Rightarrow>
          (Inr (), print banner (print ''Update complete!'' (print (CHR 0x0A # banner) sp)))))))"
  using assms
  by (simp add: main_def at_fetch_def at_upload_def at_metadata_def at_publish_def Let_def
      cong: prod.case_cong sum.case_cong)

lemma main_invalid:
  assumes "DATAWRAPPER_API_KEY environ = None \<or> DATAWRAPPER_API_KEY environ = Some []
           \<or> GOOGLE_SHEET_URL environ = None \<or> GOOGLE_SHEET_URL environ = Some []"
  shows "main sys environ s0 =
     (Inl (ValueError
        (if DATAWRAPPER_API_KEY environ = None \<or> DATAWRAPPER_API_KEY environ = Some []
         then ''DATAWRAPPER_API_KEY environment variable is required''
         else ''GOOGLE_SHEET_URL environment variable is required'')),
      print banner (print ''Datawrapper Chart Auto-Update'' (print banner s0)))"
  using assms by (auto simp: main_def Let_def split: option.splits)

text \<open>
  The log of a run: the calls come in the order of the four steps, every call before the
  last one succeeded, and a failed last call means that the run failed.
\<close>

lemma main_orderly:
  "orderly (new_exchanges s0 (snd (main sys environ s0))) (isl (fst (main sys environ s0)))"
proof (cases "DATAWRAPPER_API_KEY environ = None \<or> DATAWRAPPER_API_KEY environ = Some []
           \<or> GOOGLE_SHEET_URL environ = None \<or> GOOGLE_SHEET_URL environ = Some []")
  case True
  then show ?thesis
    by (simp only: main_invalid) (simp add: new_exchanges_def orderly_def)
next
  case False
  then obtain api_key sheet_url where cfg: "DATAWRAPPER_API_KEY environ = Some api_key"
    "api_key \<noteq> []" "GOOGLE_SHEET_URL environ = Some sheet_url" "sheet_url \<noteq> []"
    by auto
  note unfold = main_valid [OF cfg, of sys s0]
  show ?thesis
  proof (cases "str_contains ''/d/'' sheet_url")
    case False
    then show ?thesis
      by (simp add: unfold get_google_sheet_csv_no_marker new_exchanges_def orderly_def)
  next
    case True
    obtain r1 sf where f:
      "get_google_sheet_csv sys sheet_url (at_fetch environ sheet_url s0) = (r1, sf)"
      by force
    with fetch_step [OF True, of sys "at_fetch environ sheet_url s0"]
    obtain g o1 where g: "rq_verb g = GET" "exchanges sf = exchanges s0 @ [(g, o1)]"
      "call_failed o1 \<longrightarrow> isl r1" by auto
    show ?thesis
    proof (cases r1)
      case (Inl e)
      with f g show ?thesis by (simp add: unfold new_exchanges_def orderly_def)
    next
      case (Inr csv_data)
      with g have ok1: "\<not> call_failed o1" by auto
      obtain r2 su where u:
        "update_chart_data sys api_key (CHART_ID environ) csv_data (at_upload csv_data sf)
           = (r2, su)" by force
      with upload_step [of sys api_key "CHART_ID environ" csv_data "at_upload csv_data sf"]
      obtain p o2 where p: "rq_verb p = PUT" "exchanges su = exchanges s0 @ [(g, o1), (p, o2)]"
        "call_failed o2 \<longrightarrow> isl r2" using g(2) by auto
      show ?thesis
      proof (cases r2)
        case (Inl e)
        with f Inr u g p ok1 show ?thesis
          by (simp add: unfold new_exchanges_def orderly_def)
      next
        case Inr2: (Inr x2)
        with p have ok2: "\<not> call_failed o2" by auto
        obtain r3 sm where m:
          "update_chart_metadata sys api_key (CHART_ID environ) (at_metadata su) = (r3, sm)"
          by force
        with metadata_step [of sys api_key "CHART_ID environ" "at_metadata su"]
        obtain a o3 where a: "rq_verb a = PATCH"
          "exchanges sm = exchanges s0 @ [(g, o1), (p, o2), (a, o3)]"
          "call_failed o3 \<longrightarrow> isl r3" using p(2) by auto
        show ?thesis
        proof (cases r3)
          case (Inl e)
          with f Inr u Inr2 m g p a ok1 ok2 show ?thesis
            by (simp add: unfold new_exchanges_def orderly_def)
        next
          case Inr3: (Inr x3)
          with a have ok3: "\<not> call_failed o3" by auto
          obtain r4 sp where b:
            "publish_chart sys api_key (CHART_ID environ) (at_publish sm) = (r4, sp)"
            by force
          with publish_step [of sys api_key "CHART_ID environ" "at_publish sm"]
          obtain c o4 where c: "rq_verb c = POST"
            "exchanges sp = exchanges s0 @ [(g, o1), (p, o2), (a, o3), (c, o4)]"
            "call_failed o4 \<longrightarrow> isl r4" using a(2) by auto
          show ?thesis
          proof (cases r4)
            case (Inl e)
            with f Inr u Inr2 m Inr3 b g p a c ok1 ok2 ok3 show ?thesis
              by (simp add: unfold new_exchanges_def orderly_def)
          next
            case Inr4: (Inr x4)
            with c have ok4: "\<not> call_failed o4" by auto
            with f Inr u Inr2 m Inr3 b Inr4 g p a c ok1 ok2 ok3 show ?thesis
              by (simp add: unfold new_exchanges_def orderly_def)
          qed
        qed
      qed
    qed
  qed
qed

text \<open>After a successful fetch the next request of the run is the upload of its result.\<close>

lemma main_after_fetch:
  assumes "DATAWRAPPER_API_KEY environ = Some api_key" and "api_key \<noteq> []"
    and "GOOGLE_SHEET_URL environ = Some sheet_url" and "sheet_url \<noteq> []"
    and f: "get_google_sheet_csv sys sheet_url (at_fetch environ sheet_url s0)
              = (Inr csv_data, sf)"
  shows "\<exists>rest. requests_sent (snd (main sys environ s0))
           = requests_sent sf @ put_request api_key (CHART_ID environ) csv_data # rest"
proof -
  note unfold = main_valid [OF assms(1-4), of sys s0]
  obtain r2 su where u:
    "update_chart_data sys api_key (CHART_ID environ) csv_data (at_upload csv_data sf)
       = (r2, su)" by force
  with requests_sent_upload [of sys api_key "CHART_ID environ" csv_data "at_upload csv_data sf"]
  have su: "requests_sent su
      = requests_sent sf @ [put_request api_key (CHART_ID environ) csv_data]" by simp
  show ?thesis
  proof (cases r2)
    case (Inl e)
    with f u su show ?thesis by (simp add: unfold)
  next
    case Inr2: (Inr x2)
    obtain r3 sm where m:
      "update_chart_metadata sys api_key (CHART_ID environ) (at_metadata su) = (r3, sm)"
      by force
    with requests_sent_metadata [of sys api_key "CHART_ID environ" "at_metadata su"]
    have sm: "\<exists>rq. requests_sent sm = requests_sent su @ [rq]" by simp
    show ?thesis
    proof (cases r3)
      case (Inl e)
      with f u Inr2 m su sm show ?thesis by (auto simp: unfold)
    next
      case Inr3: (Inr x3)
      obtain r4 sp where b:
        "publish_chart sys api_key (CHART_ID environ) (at_publish sm) = (r4, sp)"
        by force
      with requests_sent_publish [of sys api_key "CHART_ID environ" "at_publish sm"]
      have sp: "\<exists>rq. requests_sent sp = requests_sent sm @ [rq]" by simp
      show ?thesis
      proof (cases r4)
        case (Inl e)
        with f u Inr2 m Inr3 b su sm sp show ?thesis by (auto simp: unfold)
      next
        case (Inr x4)
        with f u Inr2 m Inr3 b su sm sp show ?thesis by (auto simp: unfold)
      qed
    qed
  qed
qed

subsection \<open>Running the concrete system\<close>

lemma http_scripted [simp]:
  "http scripted (out # rest) rq = (out, rest)"
  "http scripted [] rq = (Failed ''connection refused'', [])"
  by (simp_all add: scripted_def)

lemma clock_scripted [simp]: "clock scripted w = sample_clock"
  by (simp add: scripted_def)

lemma fetched_simps [simp]:
  "\<not> error_status (fetched csv)" "resp_text (fetched csv) = csv"
  by (simp_all add: fetched_def error_status_def)

lemma server_error_simps [simp]:
  "error_status server_error" "status_code server_error = 500"
  by (simp_all add: server_error_def error_status_def)

lemma published_simps [simp]:
  "\<not> error_status (published j)" "resp_json (published j) = Some j"
  by (simp_all add: published_def error_status_def)

lemma forbidden_with_url_simps [simp]:
  "error_status forbidden_with_url" "status_code forbidden_with_url = 403"
  "resp_json forbidden_with_url = Some (JObject [(''data'',
        JObject [(''publicUrl'', JString ''https://example.com/chart1'')])])"
  by (simp_all add: forbidden_with_url_def error_status_def)

lemma sample_environ_simps [simp]:
  "DATAWRAPPER_API_KEY sample_environ = Some ''key''"
  "GOOGLE_SHEET_URL sample_environ
     = Some ''https://docs.google.com/spreadsheets/d/ABC123/edit''"
  "CHART_ID sample_environ = ''kg7Xj''"
  by (simp_all add: DATAWRAPPER_API_KEY_def GOOGLE_SHEET_URL_def CHART_ID_def
      sample_environ_def)

lemma key_only_environ_simps [simp]:
  "key_only_environ ''DATAWRAPPER_API_KEY'' = Some ''key''"
  "key_only_environ ''GOOGLE_SHEET_URL'' = None"
  by (simp_all add: key_only_environ_def)

section \<open>The claims\<close>

subsection \<open>The sheet fetcher\<close>

text \<open>
  C2. For a spreadsheet URL containing the segment \<open>/d/ABC123/edit\<close>, the request of
  the sheet fetcher goes to \<open>https://docs.google.com/spreadsheets/d/ABC123/export?format=csv\<close>,
  provided that no \<open>/d/\<close> occurs earlier in the URL: the URL is \<open>p\<close>, then the segment,
  then anything, and \<open>/d/\<close> does not occur in \<open>p\<close> followed by \<open>/d\<close> (so no occurrence
  starts inside \<open>p\<close>). The proviso is needed: \<open>split('/d/')[1]\<close> is the piece after the
  first \<open>/d/\<close>, whatever follows later.
\<close>

theorem export_url_ABC123_first_marker:
  assumes "\<not> str_contains ''/d/'' (p @ ''/d'')"
  shows "requests_sent (snd (get_google_sheet_csv sys (p @ ''/d/ABC123/edit'' @ q) s))
           = requests_sent s @
             [\<lparr>rq_verb = GET,
               rq_url = ''https://docs.google.com/spreadsheets/d/ABC123/export?format=csv'',
               rq_headers = [], rq_body = NoBody\<rparr>]"
proof -
  let ?u = "p @ ''/d/'' @ (''ABC123/edit'' @ q)"
  have "str_contains ''/d/'' ?u" unfolding str_contains_iff by blast
  moreover have "sheet_id_of ?u = ''ABC123''"
    using sheet_id_of_first_marker [OF assms, of "''ABC123/edit'' @ q"] by simp
  ultimately have "requests_sent (snd (get_google_sheet_csv sys ?u s))
      = requests_sent s @ [get_request (csv_export_url ''ABC123'')]"
    by (simp only: requests_sent_fetch)
  then show ?thesis by (simp add: get_request_def csv_export_url_def)
qed

theorem export_url_ABC123_first_marker_witness:
  "\<not> str_contains ''/d/'' (''https://docs.google.com/spreadsheets'' @ ''/d'')
   \<and> requests_sent (snd (get_google_sheet_csv scripted
         (''https://docs.google.com/spreadsheets'' @ ''/d/ABC123/edit'' @ ''#gid=0'')
         (initial [])))
       = [\<lparr>rq_verb = GET,
           rq_url = ''https://docs.google.com/spreadsheets/d/ABC123/export?format=csv'',
           rq_headers = [], rq_body = NoBody\<rparr>]"
proof -
  have h: "\<not> str_contains ''/d/'' (''https://docs.google.com/spreadsheets'' @ ''/d'')"
    by simp
  from export_url_ABC123_first_marker [OF h, of scripted "''#gid=0''" "initial []"] h
  show ?thesis by simp
qed

text \<open>
  The claim as the spec states it, for every URL that contains the segment, fails where an
  earlier \<open>/d/\<close> stands in the URL: the identifier is then what follows that one.
\<close>

theorem export_url_ABC123_counterexample:
  "str_contains ''/d/ABC123/edit'' ''https://docs.google.com/a/d/spreadsheets/d/ABC123/edit''
   \<and> requests_sent (snd (get_google_sheet_csv scripted
         ''https://docs.google.com/a/d/spreadsheets/d/ABC123/edit'' (initial [])))
       = [\<lparr>rq_verb = GET,
           rq_url = ''https://docs.google.com/spreadsheets/d/spreadsheets/export?format=csv'',
           rq_headers = [], rq_body = NoBody\<rparr>]
   \<and> requests_sent (snd (get_google_sheet_csv scripted
         ''https://docs.google.com/a/d/spreadsheets/d/ABC123/edit'' (initial [])))
       \<noteq> [\<lparr>rq_verb = GET,
           rq_url = ''https://docs.google.com/spreadsheets/d/ABC123/export?format=csv'',
           rq_headers = [], rq_body = NoBody\<rparr>]"
  by (simp add: get_google_sheet_csv_def and_then_def str_split_def getitem_def
      csv_export_url_def requests_get_def send_def scripted_def initial_def requests_sent_def)

text \<open>
  C3. A spreadsheet URL without \<open>/d/\<close> makes the sheet fetcher fail with the input-format
  error, a \<open>ValueError\<close>, and nothing happens before: the state of the run is returned as
  it was, so no request was sent and the world is untouched.
\<close>

theorem fetch_rejects_url_without_marker:
  "\<not> str_contains ''/d/'' sheet_url \<Longrightarrow>
     get_google_sheet_csv sys sheet_url s
       = (Inl (ValueError ''Invalid Google Sheets URL format''), s)"
  by (rule get_google_sheet_csv_no_marker)

theorem fetch_rejects_url_without_marker_witness:
  "\<not> str_contains ''/d/'' ''https://example.com/sheet''
   \<and> get_google_sheet_csv scripted ''https://example.com/sheet'' (initial [])
       = (Inl (ValueError ''Invalid Google Sheets URL format''), initial [])"
proof -
  have h: "\<not> str_contains ''/d/'' ''https://example.com/sheet''" by simp
  show ?thesis
    using h fetch_rejects_url_without_marker [OF h, of scripted "initial []"] by simp
qed

text \<open>
  C9. The sheet fetcher raises the input-format error if and only if the URL lacks \<open>/d/\<close>.
  With \<open>/d/\<close> in the URL it goes on to the network call: exactly one request is sent, a
  \<open>GET\<close> of the export URL of the identifier. Where no \<open>/\<close> follows the first \<open>/d/\<close>,
  the identifier is all the rest of the URL, and it is empty when the URL ends there.
\<close>

theorem format_error_iff_marker_absent:
  "((fst (get_google_sheet_csv sys sheet_url s)
       = Inl (ValueError ''Invalid Google Sheets URL format''))
      = (\<not> str_contains ''/d/'' sheet_url))
   \<and> (str_contains ''/d/'' sheet_url \<longrightarrow>
        requests_sent (snd (get_google_sheet_csv sys sheet_url s))
          = requests_sent s @
            [\<lparr>rq_verb = GET, rq_url = csv_export_url (sheet_id_of sheet_url),
              rq_headers = [], rq_body = NoBody\<rparr>])
   \<and> (\<not> str_contains ''/d/'' (p @ ''/d'') \<and> CHR ''/'' \<notin> set rest \<longrightarrow>
        sheet_id_of (p @ ''/d/'' @ rest) = rest)"
proof (intro conjI impI)
  show "(fst (get_google_sheet_csv sys sheet_url s)
      = Inl (ValueError ''Invalid Google Sheets URL format''))
     = (\<not> str_contains ''/d/'' sheet_url)"
  proof (cases "str_contains ''/d/'' sheet_url")
    case True
    then show ?thesis
      by (simp add: get_google_sheet_csv_marker split: outcome.splits)
  next
    case False
    then show ?thesis by (simp add: get_google_sheet_csv_no_marker)
  qed
next
  assume "str_contains ''/d/'' sheet_url"
  then show "requests_sent (snd (get_google_sheet_csv sys sheet_url s))
          = requests_sent s @
            [\<lparr>rq_verb = GET, rq_url = csv_export_url (sheet_id_of sheet_url),
              rq_headers = [], rq_body = NoBody\<rparr>]"
    by (simp add: requests_sent_fetch get_request_def)
next
  assume "\<not> str_contains ''/d/'' (p @ ''/d'') \<and> CHR ''/'' \<notin> set rest"
  then have "\<not> str_contains ''/d/'' (p @ ''/d'')" and "CHR ''/'' \<notin> set rest"
    by blast+
  then show "sheet_id_of (p @ ''/d/'' @ rest) = rest"
    using sheet_id_of_first_marker [of p rest] by (simp add: takeWhile_absent)
qed

theorem format_error_iff_marker_absent_witness:
  "str_contains ''/d/'' ''sheets/d/''
   \<and> fst (get_google_sheet_csv scripted ''sheets/d/'' (initial []))
       \<noteq> Inl (ValueError ''Invalid Google Sheets URL format'')
   \<and> requests_sent (snd (get_google_sheet_csv scripted ''sheets/d/'' (initial [])))
       = [\<lparr>rq_verb = GET,
           rq_url = ''https://docs.google.com/spreadsheets/d//export?format=csv'',
           rq_headers = [], rq_body = NoBody\<rparr>]
   \<and> \<not> str_contains ''/d/'' (''sheets'' @ ''/d'') \<and> CHR ''/'' \<notin> set ''ABC123''
   \<and> sheet_id_of (''sheets'' @ ''/d/'' @ ''ABC123'') = ''ABC123''"
proof -
  have m: "str_contains ''/d/'' ''sheets/d/''" by simp
  have n: "\<not> str_contains ''/d/'' (''sheets'' @ ''/d'') \<and> CHR ''/'' \<notin> set ''ABC123''"
    by simp
  have i: "sheet_id_of ''sheets/d/'' = []" by (simp add: sheet_id_of_def)
  from format_error_iff_marker_absent [where sys = scripted and sheet_url = "''sheets/d/''"
      and s = "initial []" and p = "''sheets''" and rest = "''ABC123''"] m n i
  show ?thesis by (simp add: csv_export_url_def)
qed

subsection \<open>The chart data uploader\<close>

text \<open>
  C8. What the sheet fetcher returns is the text of the response it got, and \<open>main\<close>
  hands exactly that to the uploader, which sends it as the body of its \<open>PUT\<close>: after a
  successful fetch the next request of the run is the \<open>PUT\<close> to the chart's data
  endpoint, of content type \<open>text/csv\<close>, whose body is the fetched text itself.
\<close>

theorem upload_sends_fetched_text:
  assumes "DATAWRAPPER_API_KEY environ = Some api_key" and "api_key \<noteq> []"
    and "GOOGLE_SHEET_URL environ = Some sheet_url" and "sheet_url \<noteq> []"
    and "get_google_sheet_csv sys sheet_url (at_fetch environ sheet_url s0)
           = (Inr csv_data, sf)"
  shows "(\<exists>r. last (exchanges sf)
              = (get_request (csv_export_url (sheet_id_of sheet_url)), Responded r)
            \<and> csv_data = resp_text r)
     \<and> take (Suc (length (requests_sent sf))) (requests_sent (snd (main sys environ s0)))
         = requests_sent sf @
           [\<lparr>rq_verb = PUT,
             rq_url = ''https://api.datawrapper.de/v3/charts/'' @ CHART_ID environ @ ''/data'',
             rq_headers = [(''Authorization'', ''Bearer '' @ api_key),
                           (''Content-Type'', ''text/csv'')],
             rq_body = Data csv_data\<rparr>]"
proof
  have m: "str_contains ''/d/'' sheet_url"
  proof (rule ccontr)
    assume "\<not> str_contains ''/d/'' sheet_url"
    with assms(5) show False by (simp add: get_google_sheet_csv_no_marker)
  qed
  from assms(5) show "\<exists>r. last (exchanges sf)
              = (get_request (csv_export_url (sheet_id_of sheet_url)), Responded r)
            \<and> csv_data = resp_text r"
    by (auto simp: get_google_sheet_csv_eq [OF m] split: outcome.splits if_splits)
next
  from main_after_fetch [OF assms] obtain rest where
    "requests_sent (snd (main sys environ s0))
       = requests_sent sf @ put_request api_key (CHART_ID environ) csv_data # rest"
    by blast
  then show "take (Suc (length (requests_sent sf))) (requests_sent (snd (main sys environ s0)))
         = requests_sent sf @
           [\<lparr>rq_verb = PUT,
             rq_url = ''https://api.datawrapper.de/v3/charts/'' @ CHART_ID environ @ ''/data'',
             rq_headers = [(''Authorization'', ''Bearer '' @ api_key),
                           (''Content-Type'', ''text/csv'')],
             rq_body = Data csv_data\<rparr>]"
    by (simp add: put_request_def)
qed

theorem upload_sends_fetched_text_witness:
  "fst (get_google_sheet_csv scripted ''https://docs.google.com/spreadsheets/d/ABC123/edit''
          (at_fetch sample_environ ''https://docs.google.com/spreadsheets/d/ABC123/edit''
             (initial [Responded (fetched ''name,seats'')])))
     = Inr ''name,seats''
   \<and> take (Suc (Suc 0)) (requests_sent (snd (main scripted sample_environ
         (initial [Responded (fetched ''name,seats'')]))))
       = [\<lparr>rq_verb = GET,
           rq_url = ''https://docs.google.com/spreadsheets/d/ABC123/export?format=csv'',
           rq_headers = [], rq_body = NoBody\<rparr>,
          \<lparr>rq_verb = PUT,
           rq_url = ''https://api.datawrapper.de/v3/charts/kg7Xj/data'',
           rq_headers = [(''Authorization'', ''Bearer key''), (''Content-Type'', ''text/csv'')],
           rq_body = Data ''name,seats''\<rparr>]"
proof -
  let ?u = "''https://docs.google.com/spreadsheets/d/ABC123/edit''"
  let ?s0 = "initial [Responded (fetched ''name,seats'')]"
  let ?f = "get_google_sheet_csv scripted ?u (at_fetch sample_environ ?u ?s0)"
  have k: "''key'' \<noteq> []" and g: "?u \<noteq> []" by simp_all
  have m: "str_contains ''/d/'' ?u" by simp
  have i: "csv_export_url (sheet_id_of ?u)
      = ''https://docs.google.com/spreadsheets/d/ABC123/export?format=csv''"
    by (simp add: csv_export_url_def sheet_id_of_def)
  have f1: "fst ?f = Inr ''name,seats''"
    by (simp add: get_google_sheet_csv_eq [OF m] del: str_contains.simps)
  have f2: "requests_sent (snd ?f) = [get_request (csv_export_url (sheet_id_of ?u))]"
    by (simp add: get_google_sheet_csv_eq [OF m] del: str_contains.simps)
  have f: "?f = (Inr ''name,seats'', snd ?f)" using f1 by (simp add: prod_eq_iff)
  from upload_sends_fetched_text [OF sample_environ_simps(1) k sample_environ_simps(2) g f]
  have "take (Suc (length (requests_sent (snd ?f))))
          (requests_sent (snd (main scripted sample_environ ?s0)))
      = requests_sent (snd ?f) @
        [\<lparr>rq_verb = PUT,
          rq_url = ''https://api.datawrapper.de/v3/charts/'' @ CHART_ID sample_environ @ ''/data'',
          rq_headers = [(''Authorization'', ''Bearer '' @ ''key''),
                        (''Content-Type'', ''text/csv'')],
          rq_body = Data ''name,seats''\<rparr>]"
    by blast
  then have "take (Suc (Suc 0)) (requests_sent (snd (main scripted sample_environ ?s0)))
      = [get_request (csv_export_url (sheet_id_of ?u)),
         \<lparr>rq_verb = PUT,
          rq_url = ''https://api.datawrapper.de/v3/charts/kg7Xj/data'',
          rq_headers = [(''Authorization'', ''Bearer key''), (''Content-Type'', ''text/csv'')],
          rq_body = Data ''name,seats''\<rparr>]"
    by (simp add: f2)
  with f1 show ?thesis by (simp only: i get_request_def simp_thms)
qed

subsection \<open>The chart metadata updater\<close>

text \<open>
  C7. Every run of the metadata updater sends one \<open>PATCH\<close> whose body is the JSON object
  \<open>{"metadata": {"annotate": {"notes": ...}}}\<close>: one member at each level, and for the
  notes the text \<open>Last updated:\<close> followed by the timestamp, which is the local time of
  the clock, read in the state in which the updater is called, through \<open>strftime\<close>.
\<close>

theorem metadata_patch_body:
  "requests_sent (snd (update_chart_metadata sys api_key chart_id s))
     = requests_sent s @
       [\<lparr>rq_verb = PATCH,
         rq_url = ''https://api.datawrapper.de/v3/charts/'' @ chart_id,
         rq_headers = [(''Authorization'', ''Bearer '' @ api_key),
                       (''Content-Type'', ''application/json'')],
         rq_body = Json (JObject [(''metadata'',
           JObject [(''annotate'',
             JObject [(''notes'',
               JString (''Last updated: '' @
                 strftime (local_time (clock sys (world s)))
                   ''%B %d, %Y at %I:%M %p UTC''))])])])\<rparr>]"
  by (simp only: requests_sent_metadata patch_request_def timestamp_now_def)

theorem metadata_patch_body_witness:
  "requests_sent (snd (update_chart_metadata scripted ''key'' ''kg7Xj'' (initial [])))
     = [\<lparr>rq_verb = PATCH,
         rq_url = ''https://api.datawrapper.de/v3/charts/kg7Xj'',
         rq_headers = [(''Authorization'', ''Bearer key''),
                       (''Content-Type'', ''application/json'')],
         rq_body = Json (JObject [(''metadata'',
           JObject [(''annotate'',
             JObject [(''notes'',
               JString ''Last updated: November 04, 2026 at 03:07 PM UTC'')])])])\<rparr>]"
  using metadata_patch_body [of scripted "''key''" "''kg7Xj''" "initial []"]
  by (simp add: sample_timestamp del: strftime.simps)

text \<open>
  C10. The notes that the metadata updater writes are \<open>Last updated:\<close> and a space,
  followed by the local time of the clock in the format \<open>%B %d, %Y at %I:%M %p UTC\<close>:
  month name, day, year, hour on the 12-hour clock, minute, AM or PM, all of the local
  time, and then the letters \<open>UTC\<close>, which are part of the format string and do not
  depend on the clock. The time in UTC is not read at all.
\<close>

theorem notes_local_time_with_utc_suffix:
  "rq_body (last (requests_sent (snd (update_chart_metadata sys api_key chart_id s))))
     = (let t = local_time (clock sys (world s)) in
        Json (JObject [(''metadata'',
          JObject [(''annotate'',
            JObject [(''notes'',
              JString (''Last updated: '' @ month_name (month t) @ '' '' @ pad2 (day t)
                @ '', '' @ str_nat (year t) @ '' at '' @ pad2 (hour12 (hour t)) @ '':''
                @ pad2 (minute t) @ '' '' @ am_pm (hour t) @ '' UTC''))])])]))"
  by (simp add: requests_sent_metadata patch_request_def timestamp_now_def strftime_format
      Let_def del: strftime.simps)

text \<open>With a clock five hours behind UTC the notes show the local hour and say UTC.\<close>

theorem notes_local_time_with_utc_suffix_witness:
  "hour (local_time (clock scripted [])) = 15 \<and> hour (utc_time (clock scripted [])) = 20
   \<and> rq_body (last (requests_sent
         (snd (update_chart_metadata scripted ''key'' ''kg7Xj'' (initial [])))))
       = Json (JObject [(''metadata'',
           JObject [(''annotate'',
             JObject [(''notes'',
               JString ''Last updated: November 04, 2026 at 03:07 PM UTC'')])])])"
  using notes_local_time_with_utc_suffix [of scripted "''key''" "''kg7Xj''" "initial []"]
  by (simp add: sample_clock_def month_name_def month_names_def pad2_def hour12_def
      am_pm_def str_nat.simps digit_char_def)

subsection \<open>The chart publisher\<close>

text \<open>
  C5. When the publish call is answered with a status that \<open>raise_for_status\<close> accepts
  and the JSON body has the nested field \<open>data.publicUrl\<close> with a string value, the
  publisher returns exactly that string. The condition on the status is needed: with a
  client or server error status the publisher raises before it reads the body.
\<close>

theorem publish_returns_public_url:
  assumes "fst (http sys (world s) (post_request api_key chart_id)) = Responded r"
    and "\<not> error_status r"
    and "resp_json r = Some body"
    and "public_url_field body = Some (JString v)"
  shows "fst (publish_chart sys api_key chart_id s) = Inr (JString v)"
proof -
  from assms(4) obtain items members where body: "body = JObject items"
    and data: "map_of items ''data'' = Some (JObject members)"
    and url: "map_of members ''publicUrl'' = Some (JString v)"
    by (cases body) (auto split: option.splits json.splits)
  show ?thesis
    unfolding publish_chart_result [OF assms(1,2)]
    by (simp add: response_json_def assms(3) body data url and_then_def)
qed

theorem publish_returns_public_url_witness:
  "fst (http scripted (world (initial [Responded (published (JObject [(''data'',
        JObject [(''publicUrl'', JString ''https://example.com/chart1'')])]))]))
      (post_request ''key'' ''kg7Xj''))
     = Responded (published (JObject [(''data'',
        JObject [(''publicUrl'', JString ''https://example.com/chart1'')])]))
   \<and> \<not> error_status (published (JObject [(''data'',
        JObject [(''publicUrl'', JString ''https://example.com/chart1'')])]))
   \<and> public_url_field (JObject [(''data'',
        JObject [(''publicUrl'', JString ''https://example.com/chart1'')])])
       = Some (JString ''https://example.com/chart1'')
   \<and> fst (publish_chart scripted ''key'' ''kg7Xj''
         (initial [Responded (published (JObject [(''data'',
            JObject [(''publicUrl'', JString ''https://example.com/chart1'')])]))]))
       = Inr (JString ''https://example.com/chart1'')"
proof -
  let ?body = "JObject [(''data'',
        JObject [(''publicUrl'', JString ''https://example.com/chart1'')])]"
  have a: "fst (http scripted (world (initial [Responded (published ?body)]))
      (post_request ''key'' ''kg7Xj'')) = Responded (published ?body)"
    by simp
  have b: "\<not> error_status (published ?body)" by simp
  have c: "resp_json (published ?body) = Some ?body" by simp
  have d: "public_url_field ?body = Some (JString ''https://example.com/chart1'')" by simp
  from publish_returns_public_url [OF a b c d] a b d show ?thesis by simp
qed

text \<open>
  The claim as the spec states it, for every publish response with the field, fails for a
  response with status 403 that carries the field: the publisher raises \<open>HTTPError\<close>.
\<close>

theorem publish_error_status_counterexample:
  "public_url_field (the (resp_json forbidden_with_url))
     = Some (JString ''https://example.com/chart1'')
   \<and> fst (publish_chart scripted ''key'' ''kg7Xj'' (initial [Responded forbidden_with_url]))
       = Inl (HTTPError 403)
   \<and> fst (publish_chart scripted ''key'' ''kg7Xj'' (initial [Responded forbidden_with_url]))
       \<noteq> Inr (JString ''https://example.com/chart1'')"
  by (simp add: publish_chart_eq)

text \<open>
  C6. When the publish call is answered with a status that \<open>raise_for_status\<close> accepts
  and the JSON body is an object that has no member \<open>data\<close>, or whose member \<open>data\<close> is
  an object that has no member \<open>publicUrl\<close>, the publisher does not fail: it returns the
  placeholder \<open>URL not available\<close> and reports the publication as successful. The body
  has to be an object, and \<open>data\<close>, where present, too: \<open>.get\<close> exists on a \<open>dict\<close> only.
\<close>

theorem publish_placeholder_when_url_absent:
  assumes "fst (http sys (world s) (post_request api_key chart_id)) = Responded r"
    and "\<not> error_status r"
    and "resp_json r = Some (JObject items)"
    and "map_of items ''data'' = None
         \<or> (\<exists>members. map_of items ''data'' = Some (JObject members)
                      \<and> map_of members ''publicUrl'' = None)"
  shows "fst (publish_chart sys api_key chart_id s) = Inr (JString ''URL not available'')
     \<and> stdout (snd (publish_chart sys api_key chart_id s))
         = stdout s @ [check_mark @ '' Chart published successfully!'',
                       ''  Public URL: URL not available'']"
proof
  have *: "and_then (and_then (response_json r)
          (\<lambda>result. dict_get result ''data'' (JObject [])))
          (\<lambda>data. dict_get data ''publicUrl'' (JString ''URL not available''))
        = Inr (JString ''URL not available'')"
    using assms(3,4) by (auto simp: response_json_def and_then_def)
  show "fst (publish_chart sys api_key chart_id s) = Inr (JString ''URL not available'')"
    unfolding publish_chart_result [OF assms(1,2)] by (rule *)
  show "stdout (snd (publish_chart sys api_key chart_id s))
          = stdout s @ [check_mark @ '' Chart published successfully!'',
                        ''  Public URL: URL not available'']"
    using assms(1,2) by (simp add: publish_chart_eq * print_def)
qed

theorem publish_placeholder_when_url_absent_witness:
  "fst (publish_chart scripted ''key'' ''kg7Xj''
          (initial [Responded (published (JObject [(''version'', JNumber 3)]))]))
     = Inr (JString ''URL not available'')
   \<and> fst (publish_chart scripted ''key'' ''kg7Xj''
          (initial [Responded (published (JObject [(''data'',
             JObject [(''id'', JString ''kg7Xj'')])]))]))
     = Inr (JString ''URL not available'')"
proof -
  let ?b1 = "[(''version'', JNumber 3)]"
  let ?b2 = "[(''data'', JObject [(''id'', JString ''kg7Xj'')])]"
  have a1: "fst (http scripted (world (initial [Responded (published (JObject ?b1))]))
      (post_request ''key'' ''kg7Xj'')) = Responded (published (JObject ?b1))" by simp
  have a2: "fst (http scripted (world (initial [Responded (published (JObject ?b2))]))
      (post_request ''key'' ''kg7Xj'')) = Responded (published (JObject ?b2))" by simp
  have d1: "map_of ?b1 ''data'' = None
         \<or> (\<exists>members. map_of ?b1 ''data'' = Some (JObject members)
                      \<and> map_of members ''publicUrl'' = None)" by simp
  have d2: "map_of ?b2 ''data'' = None
         \<or> (\<exists>members. map_of ?b2 ''data'' = Some (JObject members)
                      \<and> map_of members ''publicUrl'' = None)" by simp
  from publish_placeholder_when_url_absent
         [OF a1 published_simps(1) published_simps(2) d1]
       publish_placeholder_when_url_absent
         [OF a2 published_simps(1) published_simps(2) d2]
  show ?thesis by blast
qed

text \<open>
  The claim as the spec states it, for every body that lacks the field, fails for the body
  \<open>{"data": null}\<close>: the field is lacking, the status is 200, and the publisher raises
  \<open>AttributeError\<close>, the decoded \<open>None\<close> having no \<open>get\<close>.
\<close>

theorem publish_null_data_counterexample:
  "\<not> error_status (published (JObject [(''data'', JNull)]))
   \<and> public_url_field (JObject [(''data'', JNull)]) = None
   \<and> fst (publish_chart scripted ''key'' ''kg7Xj''
         (initial [Responded (published (JObject [(''data'', JNull)]))]))
       = Inl AttributeError"
  by (simp add: publish_chart_eq response_json_def and_then_def)

subsection \<open>The orchestrator\<close>

text \<open>
  C4. If the credential key or the spreadsheet URL is unset in the environment, \<open>main\<close>
  fails with a \<open>ValueError\<close> that names the variable, and it has done nothing but print
  the banner: the final state is the initial one with the three banner lines, so no step
  was entered, no request was sent and the world is untouched.
\<close>

theorem main_fails_on_missing_configuration:
  assumes "environ ''DATAWRAPPER_API_KEY'' = None \<or> environ ''GOOGLE_SHEET_URL'' = None"
  shows "main sys environ s0 =
     (Inl (ValueError
        (if environ ''DATAWRAPPER_API_KEY'' = None \<or> environ ''DATAWRAPPER_API_KEY'' = Some []
         then ''DATAWRAPPER_API_KEY environment variable is required''
         else ''GOOGLE_SHEET_URL environment variable is required'')),
      print banner (print ''Datawrapper Chart Auto-Update'' (print banner s0)))
     \<and> exchanges (snd (main sys environ s0)) = exchanges s0
     \<and> world (snd (main sys environ s0)) = world s0"
proof -
  have "DATAWRAPPER_API_KEY environ = None \<or> DATAWRAPPER_API_KEY environ = Some []
           \<or> GOOGLE_SHEET_URL environ = None \<or> GOOGLE_SHEET_URL environ = Some []"
    using assms by (auto simp: DATAWRAPPER_API_KEY_def GOOGLE_SHEET_URL_def)
  from main_invalid [OF this, of sys s0] show ?thesis
    by (simp add: DATAWRAPPER_API_KEY_def)
qed

theorem main_fails_on_missing_configuration_witness:
  "key_only_environ ''GOOGLE_SHEET_URL'' = None
   \<and> fst (main scripted key_only_environ (initial [Responded (fetched ''name,seats'')]))
       = Inl (ValueError ''GOOGLE_SHEET_URL environment variable is required'')
   \<and> exchanges (snd (main scripted key_only_environ
            (initial [Responded (fetched ''name,seats'')]))) = []
   \<and> world (snd (main scripted key_only_environ
            (initial [Responded (fetched ''name,seats'')])))
       = [Responded (fetched ''name,seats'')]"
proof -
  have h: "key_only_environ ''DATAWRAPPER_API_KEY'' = None
           \<or> key_only_environ ''GOOGLE_SHEET_URL'' = None"
    by simp
  from main_fails_on_missing_configuration
         [OF h, of scripted "initial [Responded (fetched ''name,seats'')]"]
  show ?thesis by simp
qed

text \<open>
  C1. With the configuration present, \<open>main\<close> runs fetch, upload, metadata update and
  publish in this order, each in the state the one before has left, and when one of them
  raises, \<open>main\<close> ends with that very error in the state in which it was raised: nothing
  is printed and nothing is sent afterwards. On the log of the run: its requests are a
  \<open>GET\<close>, a \<open>PUT\<close>, a \<open>PATCH\<close> and a \<open>POST\<close>, or the first few of these; every call
  before the last one succeeded; and if the last one failed, the run has failed.
\<close>

theorem main_stops_at_first_failure:
  assumes "DATAWRAPPER_API_KEY environ = Some api_key" and "api_key \<noteq> []"
    and "GOOGLE_SHEET_URL environ = Some sheet_url" and "sheet_url \<noteq> []"
  shows
    "(get_google_sheet_csv sys sheet_url (at_fetch environ sheet_url s0) = (Inl e, sf)
        \<longrightarrow> main sys environ s0 = (Inl e, sf))
     \<and> (get_google_sheet_csv sys sheet_url (at_fetch environ sheet_url s0) = (Inr csv_data, sf)
        \<and> update_chart_data sys api_key (CHART_ID environ) csv_data (at_upload csv_data sf)
            = (Inl e, su)
        \<longrightarrow> main sys environ s0 = (Inl e, su))
     \<and> (get_google_sheet_csv sys sheet_url (at_fetch environ sheet_url s0) = (Inr csv_data, sf)
        \<and> update_chart_data sys api_key (CHART_ID environ) csv_data (at_upload csv_data sf)
            = (Inr (), su)
        \<and> update_chart_metadata sys api_key (CHART_ID environ) (at_metadata su) = (Inl e, sm)
        \<longrightarrow> main sys environ s0 = (Inl e, sm))
     \<and> (get_google_sheet_csv sys sheet_url (at_fetch environ sheet_url s0) = (Inr csv_data, sf)
        \<and> update_chart_data sys api_key (CHART_ID environ) csv_data (at_upload csv_data sf)
            = (Inr (), su)
        \<and> update_chart_metadata sys api_key (CHART_ID environ) (at_metadata su) = (Inr (), sm)
        \<and> publish_chart sys api_key (CHART_ID environ) (at_publish sm) = (Inl e, sp)
        \<longrightarrow> main sys environ s0 = (Inl e, sp))
     \<and> (let log = new_exchanges s0 (snd (main sys environ s0)) in
          prefix (map (rq_verb \<circ> fst) log) [GET, PUT, PATCH, POST]
          \<and> (\<forall>x \<in> set (butlast log). \<not> call_failed (snd x))
          \<and> (log \<noteq> [] \<and> call_failed (snd (last log)) \<longrightarrow> isl (fst (main sys environ s0))))"
proof (intro conjI impI)
  show "let log = new_exchanges s0 (snd (main sys environ s0)) in
          prefix (map (rq_verb \<circ> fst) log) [GET, PUT, PATCH, POST]
          \<and> (\<forall>x \<in> set (butlast log). \<not> call_failed (snd x))
          \<and> (log \<noteq> [] \<and> call_failed (snd (last log)) \<longrightarrow> isl (fst (main sys environ s0)))"
    using main_orderly [of s0 sys environ] by (simp add: orderly_def Let_def)
qed (simp_all add: main_valid [OF assms])

text \<open>The upload is answered with status 500: the run ends there, after two requests.\<close>

theorem main_stops_at_first_failure_witness:
  "fst (main scripted sample_environ
          (initial [Responded (fetched ''name,seats''), Responded server_error]))
     = Inl (HTTPError 500)
   \<and> map rq_verb (requests_sent (snd (main scripted sample_environ
          (initial [Responded (fetched ''name,seats''), Responded server_error]))))
     = [GET, PUT]"
proof -
  let ?u = "''https://docs.google.com/spreadsheets/d/ABC123/edit''"
  let ?s0 = "initial [Responded (fetched ''name,seats''), Responded server_error]"
  let ?f = "get_google_sheet_csv scripted ?u (at_fetch sample_environ ?u ?s0)"
  let ?p = "update_chart_data scripted ''key'' (CHART_ID sample_environ) ''name,seats''
              (at_upload ''name,seats'' (snd ?f))"
  have k: "''key'' \<noteq> []" and g: "?u \<noteq> []" by simp_all
  have m: "str_contains ''/d/'' ?u" by simp
  have f1: "fst ?f = Inr ''name,seats''"
    by (simp add: get_google_sheet_csv_eq [OF m] del: str_contains.simps)
  have wf: "world (snd ?f) = [Responded server_error]"
    by (simp add: get_google_sheet_csv_eq [OF m] del: str_contains.simps)
  have f: "?f = (Inr ''name,seats'', snd ?f)" using f1 by (simp add: prod_eq_iff)
  have p1: "fst ?p = Inl (HTTPError 500)"
    by (simp add: update_chart_data_eq wf del: sample_environ_simps)
  have p: "?p = (Inl (HTTPError 500), snd ?p)" using p1 by (simp add: prod_eq_iff)
  from main_stops_at_first_failure
         [OF sample_environ_simps(1) k sample_environ_simps(2) g,
          where sys = scripted and ?s0.0 = ?s0 and csv_data = "''name,seats''"
            and sf = "snd ?f" and su = "snd ?p" and e = "HTTPError 500"] f p
  have r: "main scripted sample_environ ?s0 = (Inl (HTTPError 500), snd ?p)" by blast
  have "map rq_verb (requests_sent (snd ?p)) = [GET, PUT]"
    by (simp add: update_chart_data_eq wf del: sample_environ_simps)
       (simp add: get_google_sheet_csv_eq [OF m] get_request_def put_request_def
          del: str_contains.simps)
  with r show ?thesis by simp
qed

end
